theory Spec2Isabelle
  imports Main
begin

section \<open>The password-reset endpoints of the deployment guide\<close>

text \<open>
  The two Express handlers \<^verbatim>\<open>POST /api/forgot-password\<close> and
  \<^verbatim>\<open>POST /api/reset-password\<close> work on two PostgreSQL tables, \<^verbatim>\<open>users\<close> and
  \<^verbatim>\<open>password_resets\<close>. A table is the list of its rows in insertion order. Timestamps
  are integers (milliseconds on one time line); strings are compared for equality only,
  as the SQL \<^verbatim>\<open>WHERE email = $1\<close> and \<^verbatim>\<open>WHERE token = $1\<close> do.
\<close>

record user_row =
  u_id :: nat
  u_name :: string
  u_email :: string
  u_password_hash :: string
  u_created_at :: int

record reset_row =
  r_id :: nat
  r_email :: string
  r_token :: string
  r_expires_at :: int
  r_created_at :: int

text \<open>
  The world a handler runs in: the two tables, the \<^verbatim>\<open>SERIAL\<close> sequence behind
  \<^verbatim>\<open>password_resets.id\<close>, and the mails handed to \<^verbatim>\<open>sendResetEmail\<close> (address and
  token).
\<close>

record world =
  users :: "user_row list"
  password_resets :: "reset_row list"
  reset_seq :: nat
  outbox :: "(string \<times> string) list"

text \<open>
  Every \<^verbatim>\<open>await\<close> of the two handlers is a step that can reject. Neither handler has a
  \<^verbatim>\<open>try\<close>, so a rejection ends the handler at that step with nothing sent by it.
\<close>

datatype step = UserSelect | TokenInsert | SendMail | TokenSelect | Hash | UserUpdate | TokenDelete

text \<open>
  What a handler reads from outside: which steps reject, the clock of the Node process
  (\<^verbatim>\<open>Date.now()\<close>), the clock of the database (\<^verbatim>\<open>NOW()\<close>, \<^verbatim>\<open>CURRENT_TIMESTAMP\<close>),
  the hex string drawn by \<^verbatim>\<open>crypto.randomBytes(32).toString('hex')\<close> and the result
  of \<^verbatim>\<open>bcrypt.hash(password, 10)\<close>.
\<close>

record env =
  fails :: "step \<Rightarrow> bool"
  date_now :: int
  db_now :: int
  random_token :: string
  bcrypt_hash :: "string \<Rightarrow> string"

datatype body = Message string | ErrorBody string

datatype outcome = Responded nat body | Unhandled

definition select_user :: "string \<Rightarrow> user_row list \<Rightarrow> user_row list" where
  "select_user email us = filter (\<lambda>u. u_email u = email) us"

definition token_stored :: "string \<Rightarrow> reset_row list \<Rightarrow> bool" where
  "token_stored token rs = (token \<in> set (map r_token rs))"

text \<open>
  \<^verbatim>\<open>INSERT INTO password_resets (email, token, expires_at)\<close>: \<^verbatim>\<open>id\<close> comes from the
  sequence and \<^verbatim>\<open>created_at\<close> from the column default \<^verbatim>\<open>CURRENT_TIMESTAMP\<close>. The
  sequence advances even when the \<^verbatim>\<open>UNIQUE\<close> constraint on \<^verbatim>\<open>token\<close> rejects the row.
\<close>

definition insert_reset :: "env \<Rightarrow> string \<Rightarrow> string \<Rightarrow> int \<Rightarrow> world \<Rightarrow> world option" where
  "insert_reset e email token expiresAt w =
     (if token_stored token (password_resets w) then None
      else Some (w\<lparr>password_resets := password_resets w @
                     [\<lparr>r_id = reset_seq w, r_email = email, r_token = token,
                       r_expires_at = expiresAt, r_created_at = db_now e\<rparr>],
                   reset_seq := Suc (reset_seq w)\<rparr>))"

definition forgot_password :: "env \<Rightarrow> string \<Rightarrow> world \<Rightarrow> outcome \<times> world" where
  "forgot_password e email w =
     (if fails e UserSelect then (Unhandled, w)
      else if select_user email (users w) = [] then
        (Responded 200 (Message ''If this email is registered, a reset link will be sent.''), w)
      else
        let token = random_token e;
            expiresAt = date_now e + 3600000
        in if fails e TokenInsert then (Unhandled, w)
           else case insert_reset e email token expiresAt w of
             None \<Rightarrow> (Unhandled, w\<lparr>reset_seq := Suc (reset_seq w)\<rparr>)
           | Some w1 \<Rightarrow>
               if fails e SendMail then (Unhandled, w1)
               else (Responded 200 (Message ''Password reset link has been sent to your email.''),
                     w1\<lparr>outbox := outbox w1 @ [(email, token)]\<rparr>))"

text \<open>
  \<^verbatim>\<open>SELECT * FROM password_resets WHERE token = $1 AND expires_at > NOW()\<close>,
  \<^verbatim>\<open>UPDATE users SET password_hash = $1 WHERE email = $2\<close> and
  \<^verbatim>\<open>DELETE FROM password_resets WHERE token = $1\<close>.
\<close>

definition select_reset :: "int \<Rightarrow> string \<Rightarrow> reset_row list \<Rightarrow> reset_row list" where
  "select_reset now token rs = filter (\<lambda>r. r_token r = token \<and> r_expires_at r > now) rs"

definition update_password :: "string \<Rightarrow> string \<Rightarrow> user_row list \<Rightarrow> user_row list" where
  "update_password passwordHash email us =
     map (\<lambda>u. if u_email u = email then u\<lparr>u_password_hash := passwordHash\<rparr> else u) us"

definition delete_reset :: "string \<Rightarrow> reset_row list \<Rightarrow> reset_row list" where
  "delete_reset token rs = filter (\<lambda>r. r_token r \<noteq> token) rs"

definition reset_password :: "env \<Rightarrow> string \<Rightarrow> string \<Rightarrow> world \<Rightarrow> outcome \<times> world" where
  "reset_password e token password w =
     (if fails e TokenSelect then (Unhandled, w)
      else case select_reset (db_now e) token (password_resets w) of
        [] \<Rightarrow> (Responded 400 (ErrorBody ''Invalid or expired token''), w)
      | row0 # _ \<Rightarrow>
          if fails e Hash then (Unhandled, w)
          else
            let passwordHash = bcrypt_hash e password
            in if fails e UserUpdate then (Unhandled, w)
               else
                 let w1 = w\<lparr>users := update_password passwordHash (r_email row0) (users w)\<rparr>
                 in if fails e TokenDelete then (Unhandled, w1)
                    else (Responded 200 (Message ''Password reset successful''),
                          w1\<lparr>password_resets := delete_reset token (password_resets w1)\<rparr>))"

subsection \<open>Sequences of requests\<close>

text \<open>
  A request brings its own readings of the outside (clocks, random bytes, faults).
  \<open>handle\<close> is a handler that runs from its first line to its last with no other
  handler in between, and \<open>run\<close> handles a list of requests that way, one after the
  other.
\<close>

datatype request = ForgotPassword env string | ResetPassword env string string

fun handle :: "request \<Rightarrow> world \<Rightarrow> outcome \<times> world" where
  "handle (ForgotPassword e email) w = forgot_password e email w"
| "handle (ResetPassword e token password) w = reset_password e token password w"

fun run :: "request list \<Rightarrow> world \<Rightarrow> world" where
  "run [] w = w"
| "run (rq # rqs) w = run rqs (snd (handle rq w))"


subsection \<open>Handlers that overlap\<close>

text \<open>
  Node runs a handler up to its next \<^verbatim>\<open>await\<close> and may run other handlers before it
  goes on; nothing in the two handlers is a transaction or a lock. A handler in flight is
  its request together with the place it has reached: before its first query, before one
  of the later awaits (holding \<^verbatim>\<open>resetRecord.rows[0]\<close> where the code still needs it),
  or finished with what it sent.
\<close>

datatype pc = AtStart | AtInsert | AtMail | AtHash reset_row | AtUpdate reset_row | AtDelete
  | Finished outcome

text \<open>
  One step takes a handler from one \<^verbatim>\<open>await\<close> to the next, on the tables as they are at
  that moment. The steps are the branches of \<open>forgot_password\<close> and
  \<open>reset_password\<close>, one \<^verbatim>\<open>await\<close> each.
\<close>

fun thread_step :: "request \<Rightarrow> pc \<Rightarrow> world \<Rightarrow> pc \<times> world" where
  "thread_step (ForgotPassword e email) AtStart w =
     (if fails e UserSelect then (Finished Unhandled, w)
      else if select_user email (users w) = [] then
        (Finished (Responded 200
           (Message ''If this email is registered, a reset link will be sent.'')), w)
      else (AtInsert, w))"
| "thread_step (ForgotPassword e email) AtInsert w =
     (if fails e TokenInsert then (Finished Unhandled, w)
      else case insert_reset e email (random_token e) (date_now e + 3600000) w of
        None \<Rightarrow> (Finished Unhandled, w\<lparr>reset_seq := Suc (reset_seq w)\<rparr>)
      | Some w1 \<Rightarrow> (AtMail, w1))"
| "thread_step (ForgotPassword e email) AtMail w =
     (if fails e SendMail then (Finished Unhandled, w)
      else (Finished (Responded 200
              (Message ''Password reset link has been sent to your email.'')),
            w\<lparr>outbox := outbox w @ [(email, random_token e)]\<rparr>))"
| "thread_step (ResetPassword e token password) AtStart w =
     (if fails e TokenSelect then (Finished Unhandled, w)
      else case select_reset (db_now e) token (password_resets w) of
        [] \<Rightarrow> (Finished (Responded 400 (ErrorBody ''Invalid or expired token'')), w)
      | row0 # _ \<Rightarrow> (AtHash row0, w))"
| "thread_step (ResetPassword e token password) (AtHash row0) w =
     (if fails e Hash then (Finished Unhandled, w) else (AtUpdate row0, w))"
| "thread_step (ResetPassword e token password) (AtUpdate row0) w =
     (if fails e UserUpdate then (Finished Unhandled, w)
      else (AtDelete,
            w\<lparr>users := update_password (bcrypt_hash e password) (r_email row0) (users w)\<rparr>))"
| "thread_step (ResetPassword e token password) AtDelete w =
     (if fails e TokenDelete then (Finished Unhandled, w)
      else (Finished (Responded 200 (Message ''Password reset successful'')),
            w\<lparr>password_resets := delete_reset token (password_resets w)\<rparr>))"
| "thread_step rq p w = (p, w)"

text \<open>
  The handlers in flight share the tables. A schedule names, step by step, the handler
  that runs next; a handler that has finished, or a number that names no handler, leaves
  everything as it is.
\<close>

definition sched_step ::
  "nat \<Rightarrow> (request \<times> pc) list \<times> world \<Rightarrow> (request \<times> pc) list \<times> world" where
  "sched_step i s =
     (case s of (ths, w) \<Rightarrow>
        if i < length ths then
          (case thread_step (fst (ths ! i)) (snd (ths ! i)) w of
             (p, w') \<Rightarrow> (ths[i := (fst (ths ! i), p)], w'))
        else (ths, w))"

fun sched :: "nat list \<Rightarrow> (request \<times> pc) list \<times> world \<Rightarrow> (request \<times> pc) list \<times> world" where
  "sched [] s = s"
| "sched (i # order) s = sched order (sched_step i s)"



subsection \<open>The specification's wording\<close>

text \<open>
  Atomicity of the reset as the specification words it: after the call either neither
  table has changed, or the credential is overwritten and the token's rows are gone.
\<close>

definition spec_both_or_neither :: "string \<Rightarrow> string \<Rightarrow> string \<Rightarrow> world \<Rightarrow> world \<Rightarrow> bool" where
  "spec_both_or_neither passwordHash email token w w' =
     ((users w' = users w \<and> password_resets w' = password_resets w) \<or>
      (users w' = update_password passwordHash email (users w) \<and>
       password_resets w' = delete_reset token (password_resets w)))"

text \<open>
  The password policy in the specification's words: at least 8 characters, with an
  uppercase letter, a lowercase letter and a digit.
\<close>

definition is_upper :: "char \<Rightarrow> bool" where
  "is_upper c = (65 \<le> (of_char c :: nat) \<and> (of_char c :: nat) \<le> 90)"

definition is_lower :: "char \<Rightarrow> bool" where
  "is_lower c = (97 \<le> (of_char c :: nat) \<and> (of_char c :: nat) \<le> 122)"

definition is_digit :: "char \<Rightarrow> bool" where
  "is_digit c = (48 \<le> (of_char c :: nat) \<and> (of_char c :: nat) \<le> 57)"

definition spec_password_policy :: "string \<Rightarrow> bool" where
  "spec_password_policy p =
     (8 \<le> length p \<and> list_ex is_upper p \<and> list_ex is_lower p \<and> list_ex is_digit p)"

text \<open>
  The specification's condition for \<^verbatim>\<open>InvalidOrExpiredToken\<close>: no record found, or the
  record is consumed, or \<^verbatim>\<open>now > expiresAt\<close>. The table has no \<^verbatim>\<open>consumed\<close> column: a
  consumed token is a deleted row, so the first two causes are one.
\<close>

definition spec_token_invalid :: "int \<Rightarrow> string \<Rightarrow> reset_row list \<Rightarrow> bool" where
  "spec_token_invalid now token rs =
     (case filter (\<lambda>r. r_token r = token) rs of
        [] \<Rightarrow> True
      | r # _ \<Rightarrow> now > r_expires_at r)"

section \<open>The browser-side API helpers\<close>

text \<open>
  \<^verbatim>\<open>api-config.js\<close> wraps \<^verbatim>\<open>fetch\<close>. A JSON value is what \<^verbatim>\<open>response.json()\<close>
  resolves to; the helpers read properties of it and never look into numbers. A JavaScript
  value that may be \<^verbatim>\<open>undefined\<close> is a \<open>json option\<close>, with \<open>None\<close> for
  \<^verbatim>\<open>undefined\<close>.
\<close>

datatype json = JNull | JBool bool | JNum int | JStr string | JArr "json list"
  | JObj "(string \<times> json) list"

datatype js_error = TypeError | SyntaxError | NetworkError | StorageError | Error string

record http_request =
  rq_url :: string
  rq_method :: string
  rq_headers :: "(string \<times> string) list"
  rq_body :: "string option"

text \<open>
  What awaiting \<^verbatim>\<open>fetch(...)\<close> gives: a rejection, or a response with its \<^verbatim>\<open>ok\<close> flag
  and the value \<^verbatim>\<open>response.json()\<close> resolves to (\<open>None\<close> when the body is not JSON and
  \<^verbatim>\<open>response.json()\<close> rejects).
\<close>

datatype fetch_outcome = FetchRejected | FetchResponse bool "json option"

text \<open>
  The browser around the helpers: the network behind \<^verbatim>\<open>fetch\<close>, \<^verbatim>\<open>JSON.stringify\<close>,
  the conversion to a string that \<^verbatim>\<open>localStorage.setItem\<close> applies to its value, and
  the storage operations that throw (a full or disabled storage). The lines written by
  \<^verbatim>\<open>console.error\<close> are not part of the model.
\<close>

record browser =
  fetch :: "http_request \<Rightarrow> fetch_outcome"
  JSON_stringify :: "json \<Rightarrow> string"
  js_String :: "json option \<Rightarrow> string"
  setItem_fails :: "string \<Rightarrow> bool"
  getItem_fails :: bool

type_synonym storage = "string \<rightharpoonup> string"

definition BASE_URL :: string where
  "BASE_URL = ''http://localhost:5001/api''"

definition SIGNUP :: string where
  "SIGNUP = ''/auth/signup''"

definition LOGIN :: string where
  "LOGIN = ''/auth/login''"

definition CALENDAR_EVENTS :: string where
  "CALENDAR_EVENTS = ''/calendar/events''"

definition MOOD_ENTRIES :: string where
  "MOOD_ENTRIES = ''/mood/entries''"

definition GOALS :: string where
  "GOALS = ''/goals/goals''"

definition STUDY_SESSIONS :: string where
  "STUDY_SESSIONS = ''/study/sessions''"

definition getApiUrl :: "string \<Rightarrow> string" where
  "getApiUrl endpoint = BASE_URL @ endpoint"

text \<open>
  Reading a property: of \<^verbatim>\<open>null\<close> it throws a \<^verbatim>\<open>TypeError\<close>, of an object it gives the
  member or \<^verbatim>\<open>undefined\<close>, of any other value \<^verbatim>\<open>undefined\<close> (for the names read here:
  \<^verbatim>\<open>access_token\<close>, \<^verbatim>\<open>user\<close>, \<^verbatim>\<open>error\<close>).
\<close>

fun members :: "json \<Rightarrow> string \<rightharpoonup> json" where
  "members (JObj kvs) = map_of kvs"
| "members _ = Map.empty"

definition get_prop :: "json \<Rightarrow> string \<Rightarrow> js_error + json option" where
  "get_prop v k = (if v = JNull then Inl TypeError else Inr (members v k))"

definition setItem :: "browser \<Rightarrow> string \<Rightarrow> string \<Rightarrow> storage \<Rightarrow> js_error + storage" where
  "setItem b k v st = (if setItem_fails b k then Inl StorageError else Inr (st(k \<mapsto> v)))"

text \<open>\<^verbatim>\<open>JSON.stringify(undefined)\<close> is \<^verbatim>\<open>undefined\<close>, which \<^verbatim>\<open>setItem\<close> then converts.\<close>

definition stringify_for_storage :: "browser \<Rightarrow> json option \<Rightarrow> string" where
  "stringify_for_storage b v = (case v of None \<Rightarrow> js_String b None | Some j \<Rightarrow> JSON_stringify b j)"

text \<open>The object \<^verbatim>\<open>{ success, data }\<close> or \<^verbatim>\<open>{ success, error }\<close> that signup and login return.\<close>

datatype auth_result = AuthSuccess json | AuthFailure "json option"

definition network_error :: auth_result where
  "network_error =
     AuthFailure (Some (JStr ''Network error. Make sure the Flask backend is running on port 5001.''))"

text \<open>
  The \<^verbatim>\<open>try\<close> block that \<^verbatim>\<open>signup\<close> and \<^verbatim>\<open>login\<close> share word for word, once the
  request is built: await the fetch, await \<^verbatim>\<open>response.json()\<close>, then branch on
  \<^verbatim>\<open>response.ok\<close>. A write to \<^verbatim>\<open>localStorage\<close> that happened before a throw stays.
\<close>

definition auth_try :: "browser \<Rightarrow> http_request \<Rightarrow> storage \<Rightarrow> (js_error + auth_result) \<times> storage" where
  "auth_try b rq st =
     (case fetch b rq of
        FetchRejected \<Rightarrow> (Inl NetworkError, st)
      | FetchResponse ok None \<Rightarrow> (Inl SyntaxError, st)
      | FetchResponse ok (Some data) \<Rightarrow>
          if ok then
            (case get_prop data ''access_token'' of
               Inl x \<Rightarrow> (Inl x, st)
             | Inr tok \<Rightarrow>
                 (case setItem b ''access_token'' (js_String b tok) st of
                    Inl x \<Rightarrow> (Inl x, st)
                  | Inr st1 \<Rightarrow>
                      (case get_prop data ''user'' of
                         Inl x \<Rightarrow> (Inl x, st1)
                       | Inr u \<Rightarrow>
                           (case setItem b ''user'' (stringify_for_storage b u) st1 of
                              Inl x \<Rightarrow> (Inl x, st1)
                            | Inr st2 \<Rightarrow> (Inr (AuthSuccess data), st2)))))
          else
            (case get_prop data ''error'' of
               Inl x \<Rightarrow> (Inl x, st)
             | Inr err \<Rightarrow> (Inr (AuthFailure err), st)))"

text \<open>The \<^verbatim>\<open>catch\<close> of signup and login: whatever was thrown, return the network error.\<close>

definition auth_catch :: "(js_error + auth_result) \<times> storage \<Rightarrow> (js_error + auth_result) \<times> storage" where
  "auth_catch r = (case r of (Inl x, st) \<Rightarrow> (Inr network_error, st) | (Inr v, st) \<Rightarrow> (Inr v, st))"

definition json_headers :: "(string \<times> string) list" where
  "json_headers = [(''Content-Type'', ''application/json'')]"

definition signup_request :: "browser \<Rightarrow> string \<Rightarrow> string \<Rightarrow> string \<Rightarrow> http_request" where
  "signup_request b name email password =
     \<lparr>rq_url = getApiUrl SIGNUP, rq_method = ''POST'', rq_headers = json_headers,
      rq_body = Some (JSON_stringify b
        (JObj [(''name'', JStr name), (''email'', JStr email), (''password'', JStr password)]))\<rparr>"

definition login_request :: "browser \<Rightarrow> string \<Rightarrow> string \<Rightarrow> http_request" where
  "login_request b email password =
     \<lparr>rq_url = getApiUrl LOGIN, rq_method = ''POST'', rq_headers = json_headers,
      rq_body = Some (JSON_stringify b (JObj [(''email'', JStr email), (''password'', JStr password)]))\<rparr>"

definition AuthAPI_signup ::
  "browser \<Rightarrow> string \<Rightarrow> string \<Rightarrow> string \<Rightarrow> storage \<Rightarrow> (js_error + auth_result) \<times> storage" where
  "AuthAPI_signup b name email password st =
     auth_catch (auth_try b (signup_request b name email password) st)"

definition AuthAPI_login ::
  "browser \<Rightarrow> string \<Rightarrow> string \<Rightarrow> storage \<Rightarrow> (js_error + auth_result) \<times> storage" where
  "AuthAPI_login b email password st =
     auth_catch (auth_try b (login_request b email password) st)"

text \<open>
  \<^verbatim>\<open>getAuthHeaders\<close> reads the token from \<^verbatim>\<open>localStorage\<close>; in the template string a
  missing token (\<^verbatim>\<open>null\<close>) prints as \<^verbatim>\<open>null\<close>.
\<close>

definition AuthAPI_getAuthHeaders :: "browser \<Rightarrow> storage \<Rightarrow> js_error + (string \<times> string) list" where
  "AuthAPI_getAuthHeaders b st =
     (if getItem_fails b then Inl StorageError
      else Inr [(''Content-Type'', ''application/json''),
                (''Authorization'',
                 ''Bearer '' @ (case st ''access_token'' of None \<Rightarrow> ''null'' | Some t \<Rightarrow> t))])"

text \<open>
  The \<^verbatim>\<open>try\<close> block of the eight resource helpers, which differ in the endpoint, the method
  and body, and the message of the \<^verbatim>\<open>Error\<close> thrown on a response that is not OK: build
  the headers, await the fetch, and on an OK response return \<^verbatim>\<open>await response.json()\<close>.
\<close>

definition resource_try ::
  "browser \<Rightarrow> string \<Rightarrow> string \<Rightarrow> json option \<Rightarrow> string \<Rightarrow> storage \<Rightarrow> js_error + json" where
  "resource_try b endpoint method payload message st =
     (case AuthAPI_getAuthHeaders b st of
        Inl x \<Rightarrow> Inl x
      | Inr hs \<Rightarrow>
          (case fetch b \<lparr>rq_url = getApiUrl endpoint, rq_method = method, rq_headers = hs,
                         rq_body = map_option (JSON_stringify b) payload\<rparr> of
             FetchRejected \<Rightarrow> Inl NetworkError
           | FetchResponse ok parsed \<Rightarrow>
               if ok then (case parsed of None \<Rightarrow> Inl SyntaxError | Some v \<Rightarrow> Inr v)
               else Inl (Error message)))"

text \<open>The \<^verbatim>\<open>catch\<close> of a resource helper returns a fixed value: \<^verbatim>\<open>[]\<close> or \<^verbatim>\<open>null\<close>.\<close>

definition resource_catch :: "js_error + json \<Rightarrow> json \<Rightarrow> js_error + json" where
  "resource_catch r fallback = (case r of Inl x \<Rightarrow> Inr fallback | Inr v \<Rightarrow> Inr v)"

definition CalendarAPI_getEvents :: "browser \<Rightarrow> storage \<Rightarrow> js_error + json" where
  "CalendarAPI_getEvents b st =
     resource_catch (resource_try b CALENDAR_EVENTS ''GET'' None ''Failed to fetch events'' st)
       (JArr [])"

definition CalendarAPI_createEvent :: "browser \<Rightarrow> json \<Rightarrow> storage \<Rightarrow> js_error + json" where
  "CalendarAPI_createEvent b eventData st =
     resource_catch
       (resource_try b CALENDAR_EVENTS ''POST'' (Some eventData) ''Failed to create event'' st)
       JNull"

definition MoodAPI_getMoodEntries :: "browser \<Rightarrow> storage \<Rightarrow> js_error + json" where
  "MoodAPI_getMoodEntries b st =
     resource_catch (resource_try b MOOD_ENTRIES ''GET'' None ''Failed to fetch mood entries'' st)
       (JArr [])"

text \<open>An omitted \<^verbatim>\<open>notes\<close> argument (\<open>None\<close>) takes its default, the empty string.\<close>

definition MoodAPI_createMoodEntry ::
  "browser \<Rightarrow> json \<Rightarrow> json \<Rightarrow> json option \<Rightarrow> storage \<Rightarrow> js_error + json" where
  "MoodAPI_createMoodEntry b mood moodLevel notes st =
     resource_catch
       (resource_try b MOOD_ENTRIES ''POST''
          (Some (JObj [(''mood'', mood), (''mood_level'', moodLevel),
                       (''notes'', case notes of None \<Rightarrow> JStr [] | Some n \<Rightarrow> n)]))
          ''Failed to create mood entry'' st)
       JNull"

definition GoalsAPI_getGoals :: "browser \<Rightarrow> storage \<Rightarrow> js_error + json" where
  "GoalsAPI_getGoals b st =
     resource_catch (resource_try b GOALS ''GET'' None ''Failed to fetch goals'' st) (JArr [])"

definition GoalsAPI_createGoal :: "browser \<Rightarrow> json \<Rightarrow> storage \<Rightarrow> js_error + json" where
  "GoalsAPI_createGoal b goalData st =
     resource_catch (resource_try b GOALS ''POST'' (Some goalData) ''Failed to create goal'' st)
       JNull"

definition StudyAPI_getStudySessions :: "browser \<Rightarrow> storage \<Rightarrow> js_error + json" where
  "StudyAPI_getStudySessions b st =
     resource_catch
       (resource_try b STUDY_SESSIONS ''GET'' None ''Failed to fetch study sessions'' st)
       (JArr [])"

definition StudyAPI_createStudySession ::
  "browser \<Rightarrow> json \<Rightarrow> json \<Rightarrow> json option \<Rightarrow> json option \<Rightarrow> storage \<Rightarrow> js_error + json" where
  "StudyAPI_createStudySession b duration subject notes sessionType st =
     resource_catch
       (resource_try b STUDY_SESSIONS ''POST''
          (Some (JObj [(''duration'', duration), (''subject'', subject),
                       (''notes'', case notes of None \<Rightarrow> JStr [] | Some n \<Rightarrow> n),
                       (''session_type'',
                        case sessionType of None \<Rightarrow> JStr ''pomodoro'' | Some t \<Rightarrow> t)]))
          ''Failed to create study session'' st)
       JNull"

section \<open>Example inputs\<close>

definition no_faults :: "step \<Rightarrow> bool" where
  "no_faults s = False"

definition env0 :: env where
  "env0 = \<lparr>fails = no_faults, date_now = 1000, db_now = 1000,
           random_token = ''ab12'', bcrypt_hash = (\<lambda>p. ''$2b$10$'' @ p)\<rparr>"

definition alice :: user_row where
  "alice = \<lparr>u_id = 1, u_name = ''Alice'', u_email = ''alice@example.com'',
            u_password_hash = ''$2b$10$OldPass1'', u_created_at = 0\<rparr>"

definition world_registered :: world where
  "world_registered = \<lparr>users = [alice], password_resets = [], reset_seq = 1, outbox = []\<rparr>"

definition world_unregistered :: world where
  "world_unregistered = \<lparr>users = [], password_resets = [], reset_seq = 1, outbox = []\<rparr>"

definition alice_token :: reset_row where
  "alice_token = \<lparr>r_id = 1, r_email = ''alice@example.com'', r_token = ''ab12'',
                  r_expires_at = 5000, r_created_at = 10\<rparr>"

definition world_with_token :: world where
  "world_with_token = \<lparr>users = [alice], password_resets = [alice_token], reset_seq = 2, outbox = []\<rparr>"

definition world_orphan_token :: world where
  "world_orphan_token = \<lparr>users = [], password_resets = [alice_token], reset_seq = 2, outbox = []\<rparr>"

definition delete_fails :: "step \<Rightarrow> bool" where
  "delete_fails s = (s = TokenDelete)"

definition env_delete_fails :: env where
  "env_delete_fails = env0\<lparr>fails := delete_fails\<rparr>"

definition env_at_expiry :: env where
  "env_at_expiry = env0\<lparr>db_now := 5000\<rparr>"

definition env_skew :: env where
  "env_skew = env0\<lparr>db_now := 1007\<rparr>"

definition env_later :: env where
  "env_later = env0\<lparr>date_now := 2000, db_now := 2000, random_token := ''cd34''\<rparr>"

definition login_body :: json where
  "login_body = JObj [(''access_token'', JStr ''jwt''), (''user'', JObj [(''id'', JNum 1)])]"

definition denied_body :: json where
  "denied_body = JObj [(''error'', JStr ''Invalid credentials'')]"

definition to_text :: "json option \<Rightarrow> string" where
  "to_text v = (case v of None \<Rightarrow> ''undefined'' | Some (JStr s) \<Rightarrow> s | Some _ \<Rightarrow> ''null'')"

definition storage_works :: "string \<Rightarrow> bool" where
  "storage_works k = False"

definition storage_full :: "string \<Rightarrow> bool" where
  "storage_full k = True"

definition browser_down :: browser where
  "browser_down = \<lparr>fetch = (\<lambda>rq. FetchRejected), JSON_stringify = (\<lambda>j. ''{}''),
                    js_String = to_text, setItem_fails = storage_works, getItem_fails = False\<rparr>"

definition browser_ok :: browser where
  "browser_ok = browser_down\<lparr>fetch := (\<lambda>rq. FetchResponse True (Some login_body))\<rparr>"

definition browser_denied :: browser where
  "browser_denied = browser_down\<lparr>fetch := (\<lambda>rq. FetchResponse False (Some denied_body))\<rparr>"

definition browser_ok_null :: browser where
  "browser_ok_null = browser_down\<lparr>fetch := (\<lambda>rq. FetchResponse True (Some JNull))\<rparr>"

definition browser_storage_full :: browser where
  "browser_storage_full = browser_ok\<lparr>setItem_fails := storage_full\<rparr>"

section \<open>Properties\<close>

text \<open>
  C1 (the forgot-password response does not depend on whether the email is registered).
  The handler answers an unregistered email with the neutral message and a registered one
  with a different message: for the email \<^verbatim>\<open>alice@example.com\<close> the two responses have
  the same status 200 and different bodies.
\<close>

theorem forgot_password_discloses_registration:
  "fst (forgot_password env0 ''alice@example.com'' world_unregistered) =
     Responded 200 (Message ''If this email is registered, a reset link will be sent.'')
   \<and> fst (forgot_password env0 ''alice@example.com'' world_registered) =
     Responded 200 (Message ''Password reset link has been sent to your email.'')
   \<and> fst (forgot_password env0 ''alice@example.com'' world_registered) \<noteq>
     fst (forgot_password env0 ''alice@example.com'' world_unregistered)"
  by (simp add: forgot_password_def select_user_def insert_reset_def token_stored_def Let_def
      env0_def no_faults_def alice_def world_registered_def world_unregistered_def)

subsection \<open>How one reset call ends\<close>

lemma reset_password_rejects:
  assumes "\<not> fails e TokenSelect"
    and "select_reset (db_now e) token (password_resets w) = []"
  shows "reset_password e token password w =
           (Responded 400 (ErrorBody ''Invalid or expired token''), w)"
  using assms by (simp add: reset_password_def)


lemma select_reset_empty_iff:
  "(select_reset now token rs = []) =
     (\<forall>r \<in> set rs. r_token r = token \<longrightarrow> r_expires_at r \<le> now)"
  by (auto simp: select_reset_def filter_empty_conv)

lemma update_password_absent:
  "select_user email us = [] \<Longrightarrow> update_password h email us = us"
  by (induction us) (auto simp: select_user_def update_password_def split: if_splits)

text \<open>
  C2 (the credential update and the token's invalidation are atomic). The handler sends
  \<^verbatim>\<open>UPDATE users\<close> and \<^verbatim>\<open>DELETE FROM password_resets\<close> as two queries outside any
  transaction. When the \<^verbatim>\<open>DELETE\<close> rejects, the password of
  \<^verbatim>\<open>alice@example.com\<close> is already overwritten and her token is still stored: neither
  "both" nor "neither".
\<close>

theorem reset_password_not_atomic:
  "snd (reset_password env_delete_fails ''ab12'' ''Abcdefg1'' world_with_token) =
     world_with_token\<lparr>users := [alice\<lparr>u_password_hash := ''$2b$10$Abcdefg1''\<rparr>]\<rparr>
   \<and> \<not> spec_both_or_neither (bcrypt_hash env_delete_fails ''Abcdefg1'') ''alice@example.com''
         ''ab12'' world_with_token
         (snd (reset_password env_delete_fails ''ab12'' ''Abcdefg1'' world_with_token))"
  by (simp add: reset_password_def select_reset_def update_password_def delete_reset_def
      spec_both_or_neither_def env_delete_fails_def env0_def delete_fails_def
      world_with_token_def alice_def alice_token_def Let_def)

text \<open>
  C2, amended. In every execution of the reset in which the \<^verbatim>\<open>DELETE\<close> is not the step
  that rejects, either neither table changes or the credential is overwritten and the
  token's rows are deleted. In an execution that reaches the \<^verbatim>\<open>DELETE\<close> and is rejected
  there, the credential is overwritten and the token table is unchanged, with no response.
\<close>

theorem reset_password_atomic_unless_delete_fails:
  assumes "select_reset (db_now e) token (password_resets w) = row0 # rest"
  shows "if fails e TokenSelect \<or> fails e Hash \<or> fails e UserUpdate \<or> \<not> fails e TokenDelete
         then spec_both_or_neither (bcrypt_hash e password) (r_email row0) token w
                (snd (reset_password e token password w))
         else reset_password e token password w =
                (Unhandled,
                 w\<lparr>users := update_password (bcrypt_hash e password) (r_email row0) (users w)\<rparr>)"
  using assms
  by (simp add: reset_password_def spec_both_or_neither_def Let_def)

theorem reset_password_atomic_unless_delete_fails_witness:
  "spec_both_or_neither (bcrypt_hash env0 ''Abcdefg1'') (r_email alice_token) ''ab12''
     world_with_token (snd (reset_password env0 ''ab12'' ''Abcdefg1'' world_with_token))
   \<and> reset_password env_delete_fails ''ab12'' ''Abcdefg1'' world_with_token =
       (Unhandled,
        world_with_token\<lparr>users := update_password (bcrypt_hash env_delete_fails ''Abcdefg1'')
                                     (r_email alice_token) (users world_with_token)\<rparr>)"
proof -
  have sel: "select_reset (db_now env0) ''ab12'' (password_resets world_with_token) =
               alice_token # []"
    by (simp add: select_reset_def env0_def world_with_token_def alice_token_def)
  have sel': "select_reset (db_now env_delete_fails) ''ab12'' (password_resets world_with_token) =
               alice_token # []"
    by (simp add: select_reset_def env_delete_fails_def env0_def world_with_token_def
        alice_token_def)
  show ?thesis
    using reset_password_atomic_unless_delete_fails [OF sel, of "''Abcdefg1''"]
      reset_password_atomic_unless_delete_fails [OF sel', of "''Abcdefg1''"]
    by (simp add: env_delete_fails_def env0_def delete_fails_def no_faults_def)
qed

text \<open>
  C3 (a password that violates the policy is rejected before the token store is touched).
  The handler never inspects the password: with a stored, unexpired token the password
  \<^verbatim>\<open>abc12345\<close> (no uppercase letter) is hashed and written, the token is deleted and the
  response is 200.
\<close>

theorem reset_password_accepts_abc12345:
  "\<not> spec_password_policy ''abc12345''
   \<and> reset_password env0 ''ab12'' ''abc12345'' world_with_token =
     (Responded 200 (Message ''Password reset successful''),
      world_with_token\<lparr>users := [alice\<lparr>u_password_hash := ''$2b$10$abc12345''\<rparr>],
                       password_resets := []\<rparr>)"
  by (simp add: spec_password_policy_def is_upper_def
      reset_password_def select_reset_def update_password_def delete_reset_def
      env0_def no_faults_def world_with_token_def alice_def alice_token_def Let_def)

text \<open>
  C4 (a valid token whose account is gone fails with \<^verbatim>\<open>InvalidOrExpiredToken\<close>). The
  handler does not look the account up: with no user row for the token's email the
  \<^verbatim>\<open>UPDATE\<close> changes no row, the token is deleted and the response is 200, not 400.
\<close>

theorem reset_password_orphan_token_succeeds:
  "select_user (r_email alice_token) (users world_orphan_token) = []
   \<and> reset_password env0 ''ab12'' ''Abcdefg1'' world_orphan_token =
       (Responded 200 (Message ''Password reset successful''),
        world_orphan_token\<lparr>password_resets := []\<rparr>)
   \<and> fst (reset_password env0 ''ab12'' ''Abcdefg1'' world_orphan_token) \<noteq>
       Responded 400 (ErrorBody ''Invalid or expired token'')"
  by (simp add: reset_password_def select_reset_def select_user_def update_password_def
      delete_reset_def env0_def no_faults_def world_orphan_token_def alice_token_def Let_def)

text \<open>
  C4, amended. For every reset call that presents a stored, unexpired token whose email
  matches no user row, no credential is updated, whatever step rejects; when no step
  rejects, the response is 200 "Password reset successful" and the token's rows are
  deleted.
\<close>

theorem reset_password_orphan_token:
  assumes "select_reset (db_now e) token (password_resets w) = row0 # rest"
    and "select_user (r_email row0) (users w) = []"
  shows "users (snd (reset_password e token password w)) = users w
       \<and> (if fails e TokenSelect \<or> fails e Hash \<or> fails e UserUpdate \<or> fails e TokenDelete
          then reset_password e token password w = (Unhandled, w)
          else reset_password e token password w =
                 (Responded 200 (Message ''Password reset successful''),
                  w\<lparr>password_resets := delete_reset token (password_resets w)\<rparr>))"
  using assms update_password_absent [OF assms(2)]
  by (simp add: reset_password_def Let_def)

theorem reset_password_orphan_token_witness:
  "users (snd (reset_password env0 ''ab12'' ''Abcdefg1'' world_orphan_token)) =
     users world_orphan_token
   \<and> reset_password env0 ''ab12'' ''Abcdefg1'' world_orphan_token =
       (Responded 200 (Message ''Password reset successful''),
        world_orphan_token\<lparr>password_resets :=
          delete_reset ''ab12'' (password_resets world_orphan_token)\<rparr>)"
proof -
  have sel: "select_reset (db_now env0) ''ab12'' (password_resets world_orphan_token) =
               alice_token # []"
    by (simp add: select_reset_def env0_def world_orphan_token_def alice_token_def)
  have gone: "select_user (r_email alice_token) (users world_orphan_token) = []"
    by (simp add: select_user_def world_orphan_token_def)
  show ?thesis
    using reset_password_orphan_token [OF sel gone, of "''Abcdefg1''"]
    by (simp add: env0_def no_faults_def)
qed

text \<open>
  C5 (the reset fails with the one \<^verbatim>\<open>InvalidOrExpiredToken\<close> response exactly when the
  token has no record, is consumed, or \<^verbatim>\<open>now > expiresAt\<close>). The query keeps a row only
  when \<^verbatim>\<open>expires_at > NOW()\<close>: at the instant \<^verbatim>\<open>now = expiresAt\<close> the token is stored
  and \<^verbatim>\<open>now > expiresAt\<close> is false, yet the handler answers 400.
\<close>

theorem reset_password_rejects_at_expiry:
  "fst (reset_password env_at_expiry ''ab12'' ''Abcdefg1'' world_with_token) =
     Responded 400 (ErrorBody ''Invalid or expired token'')
   \<and> \<not> spec_token_invalid (db_now env_at_expiry) ''ab12'' (password_resets world_with_token)"
  by (simp add: reset_password_def select_reset_def spec_token_invalid_def env_at_expiry_def
      env0_def no_faults_def world_with_token_def alice_token_def)

text \<open>
  C5, amended. When the token query itself does not reject, the reset answers
  400 "Invalid or expired token" exactly when every stored row of the presented token has
  \<^verbatim>\<open>expires_at \<le> now\<close> (there is no row, because the token was never issued or was deleted
  on use, or the row has reached its expiry); the response is the same for every cause,
  and the tables are left as they were.
\<close>

theorem reset_password_rejects_iff:
  assumes "\<not> fails e TokenSelect"
  shows "(fst (reset_password e token password w) =
            Responded 400 (ErrorBody ''Invalid or expired token'')) =
         (\<forall>r \<in> set (password_resets w). r_token r = token \<longrightarrow> r_expires_at r \<le> db_now e)
       \<and> ((\<forall>r \<in> set (password_resets w). r_token r = token \<longrightarrow> r_expires_at r \<le> db_now e) \<longrightarrow>
            reset_password e token password w =
              (Responded 400 (ErrorBody ''Invalid or expired token''), w))"
proof (cases "select_reset (db_now e) token (password_resets w)")
  case Nil
  then show ?thesis
    using assms reset_password_rejects [OF assms Nil, of password]
    by (simp add: select_reset_empty_iff)
next
  case (Cons row0 rest)
  then have "\<not> (\<forall>r \<in> set (password_resets w). r_token r = token \<longrightarrow> r_expires_at r \<le> db_now e)"
    using select_reset_empty_iff [of "db_now e" token "password_resets w"] by simp
  moreover have "fst (reset_password e token password w) \<noteq>
                   Responded 400 (ErrorBody ''Invalid or expired token'')"
    using assms Cons by (simp add: reset_password_def Let_def)
  ultimately show ?thesis by blast
qed

theorem reset_password_rejects_iff_witness:
  "fst (reset_password env0 ''zz99'' ''Abcdefg1'' world_with_token) =
     Responded 400 (ErrorBody ''Invalid or expired token'')
   \<and> fst (reset_password env_at_expiry ''ab12'' ''Abcdefg1'' world_with_token) =
     Responded 400 (ErrorBody ''Invalid or expired token'')
   \<and> fst (reset_password env0 ''ab12'' ''Abcdefg1'' world_with_token) \<noteq>
     Responded 400 (ErrorBody ''Invalid or expired token'')"
proof -
  have ok: "\<not> fails env0 TokenSelect" "\<not> fails env_at_expiry TokenSelect"
    by (simp_all add: env0_def env_at_expiry_def no_faults_def)
  show ?thesis
    using reset_password_rejects_iff [OF ok(1), of "''zz99''" "''Abcdefg1''" world_with_token]
      reset_password_rejects_iff [OF ok(2), of "''ab12''" "''Abcdefg1''" world_with_token]
      reset_password_rejects_iff [OF ok(1), of "''ab12''" "''Abcdefg1''" world_with_token]
    by (simp add: env0_def env_at_expiry_def world_with_token_def alice_token_def)
qed

subsection \<open>Tokens while handlers overlap\<close>

text \<open>
  A handler that runs its awaits with nothing in between (at most four of them) does what
  \<open>handle\<close> says.
\<close>

lemma handle_steps:
  "sched [0, 0, 0, 0] ([(rq, AtStart)], w) =
     ([(rq, Finished (fst (handle rq w)))], snd (handle rq w))"
proof (cases rq)
  case (ForgotPassword e email)
  then show ?thesis
    by (simp add: sched_step_def forgot_password_def Let_def split: option.splits)
next
  case (ResetPassword e token password)
  then show ?thesis
    by (simp add: sched_step_def reset_password_def Let_def split: list.splits)
qed

















text \<open>
  C7 (each call for a registered email creates exactly one record, with
  \<^verbatim>\<open>expiresAt - issuedAt\<close> equal to one hour). The row's \<^verbatim>\<open>expires_at\<close> is computed in
  the handler from \<^verbatim>\<open>Date.now()\<close>; its \<^verbatim>\<open>created_at\<close> is filled in by the database
  from \<^verbatim>\<open>CURRENT_TIMESTAMP\<close> when the row is inserted. With the database clock read 7 ms
  after the handler's, the one new row has \<^verbatim>\<open>expires_at - created_at\<close> = 3599993 ms.
\<close>

theorem forgot_password_lifetime_skewed:
  "map (\<lambda>r. r_expires_at r - r_created_at r)
     (password_resets (snd (forgot_password env_skew ''alice@example.com'' world_registered))) =
     [3599993]
   \<and> map (\<lambda>r. r_expires_at r - r_created_at r)
     (password_resets (snd (forgot_password env_skew ''alice@example.com'' world_registered))) \<noteq>
     [3600000]"
  by (simp add: forgot_password_def select_user_def insert_reset_def token_stored_def
      env_skew_def env0_def no_faults_def world_registered_def alice_def Let_def)

text \<open>
  C7, amended. For a registered email, when neither the user query nor the insert rejects
  and the drawn token is not stored yet, the call appends exactly one row to
  \<^verbatim>\<open>password_resets\<close>; the row carries the email and the drawn token, its
  \<^verbatim>\<open>expires_at\<close> is the handler's \<^verbatim>\<open>Date.now()\<close> plus exactly 3600000 ms, and its
  \<^verbatim>\<open>created_at\<close> is the database's clock at the insert, so that
  \<^verbatim>\<open>expires_at - created_at\<close> is one hour plus the difference of the two readings.
\<close>

theorem forgot_password_creates_one_row:
  assumes "select_user email (users w) \<noteq> []"
    and "\<not> fails e UserSelect" "\<not> fails e TokenInsert"
    and "\<not> token_stored (random_token e) (password_resets w)"
  shows "password_resets (snd (forgot_password e email w)) =
           password_resets w @
             [\<lparr>r_id = reset_seq w, r_email = email, r_token = random_token e,
               r_expires_at = date_now e + 3600000, r_created_at = db_now e\<rparr>]
       \<and> r_expires_at (last (password_resets (snd (forgot_password e email w)))) -
           r_created_at (last (password_resets (snd (forgot_password e email w)))) =
           3600000 + (date_now e - db_now e)"
  using assms by (simp add: forgot_password_def insert_reset_def Let_def)

theorem forgot_password_creates_one_row_witness:
  "password_resets (snd (forgot_password env0 ''alice@example.com'' world_registered)) =
     password_resets world_registered @
       [\<lparr>r_id = reset_seq world_registered, r_email = ''alice@example.com'',
         r_token = random_token env0, r_expires_at = date_now env0 + 3600000,
         r_created_at = db_now env0\<rparr>]
   \<and> r_expires_at (last (password_resets
        (snd (forgot_password env0 ''alice@example.com'' world_registered)))) -
      r_created_at (last (password_resets
        (snd (forgot_password env0 ''alice@example.com'' world_registered)))) =
      3600000 + (date_now env0 - db_now env0)"
proof -
  have reg: "select_user ''alice@example.com'' (users world_registered) \<noteq> []"
    by (simp add: select_user_def world_registered_def alice_def)
  have ok: "\<not> fails env0 UserSelect" "\<not> fails env0 TokenInsert"
    by (simp_all add: env0_def no_faults_def)
  have fresh: "\<not> token_stored (random_token env0) (password_resets world_registered)"
    by (simp add: token_stored_def world_registered_def)
  show ?thesis
    using forgot_password_creates_one_row [OF reg ok fresh] .
qed

subsection \<open>The uniqueness constraint on tokens\<close>

lemma forgot_password_distinct:
  assumes "distinct (map r_token (password_resets w))"
  shows "distinct (map r_token (password_resets (snd (forgot_password e email w))))"
  using assms
  by (auto simp: forgot_password_def insert_reset_def token_stored_def Let_def
      split: option.splits if_splits)

lemma reset_password_distinct:
  assumes "distinct (map r_token (password_resets w))"
  shows "distinct (map r_token (password_resets (snd (reset_password e token password w))))"
  using assms
  by (auto simp: reset_password_def delete_reset_def Let_def distinct_map_filter
      split: list.splits if_splits)

lemma run_distinct:
  "distinct (map r_token (password_resets w)) \<Longrightarrow>
   distinct (map r_token (password_resets (run rqs w)))"
proof (induction rqs arbitrary: w)
  case Nil
  then show ?case by simp
next
  case (Cons rq rqs)
  have "distinct (map r_token (password_resets (snd (handle rq w))))"
    using Cons.prems forgot_password_distinct reset_password_distinct by (cases rq) simp_all
  then show ?case using Cons.IH by simp
qed

text \<open>The same holds step by step, however the handlers in flight interleave.\<close>

lemma thread_step_distinct:
  assumes "distinct (map r_token (password_resets w))"
  shows "distinct (map r_token (password_resets (snd (thread_step rq p w))))"
proof (cases rq)
  case (ForgotPassword e email)
  then show ?thesis
    using assms
    by (cases p) (auto simp: insert_reset_def token_stored_def split: option.splits if_splits)
next
  case (ResetPassword e token password)
  then show ?thesis
    using assms
    by (cases p) (auto simp: delete_reset_def distinct_map_filter split: list.splits)
qed

lemma sched_step_distinct:
  assumes "distinct (map r_token (password_resets (snd s)))"
  shows "distinct (map r_token (password_resets (snd (sched_step i s))))"
proof (cases s)
  case (Pair ths w)
  then show ?thesis
    using assms thread_step_distinct [of w "fst (ths ! i)" "snd (ths ! i)"]
    by (auto simp: sched_step_def split: prod.splits)
qed

lemma sched_distinct:
  "distinct (map r_token (password_resets (snd s))) \<Longrightarrow>
   distinct (map r_token (password_resets (snd (sched order s))))"
  by (induction order arbitrary: s) (simp_all add: sched_step_distinct)

text \<open>
  C8 (no two records hold the same token; a colliding insert fails and a fresh token is
  generated). When the drawn token \<^verbatim>\<open>ab12\<close> is already stored, the insert is rejected and
  the handler ends there: no response, no new row, no second draw.
\<close>

theorem forgot_password_collision_aborts:
  "token_stored (random_token env0) (password_resets world_with_token)
   \<and> forgot_password env0 ''alice@example.com'' world_with_token =
       (Unhandled, world_with_token\<lparr>reset_seq := 3\<rparr>)
   \<and> password_resets (snd (forgot_password env0 ''alice@example.com'' world_with_token)) =
       password_resets world_with_token"
  by (simp add: forgot_password_def select_user_def insert_reset_def token_stored_def
      env0_def no_faults_def world_with_token_def alice_def alice_token_def Let_def)

text \<open>
  C8, amended. Across every sequence of requests the rows of \<^verbatim>\<open>password_resets\<close> hold
  pairwise different tokens, because the table rejects a row whose token is stored
  already. When the drawn token collides, for a registered email, the call ends without
  a response and stores no row; no other token is drawn.
\<close>

theorem tokens_stay_unique:
  assumes "distinct (map r_token (password_resets w))"
    and "token_stored (random_token e) (password_resets w0)"
    and "select_user email (users w0) \<noteq> []"
    and "\<not> fails e UserSelect"
  shows "distinct (map r_token (password_resets (run rqs w)))
       \<and> fst (forgot_password e email w0) = Unhandled
       \<and> password_resets (snd (forgot_password e email w0)) = password_resets w0"
  using assms run_distinct [OF assms(1), of rqs]
  by (simp add: forgot_password_def insert_reset_def Let_def)

theorem tokens_stay_unique_witness:
  "distinct (map r_token (password_resets
      (run [ForgotPassword env0 ''alice@example.com'',
            ForgotPassword env0 ''alice@example.com'',
            ForgotPassword env_later ''alice@example.com''] world_registered)))
   \<and> fst (forgot_password env0 ''alice@example.com'' world_with_token) = Unhandled
   \<and> password_resets (snd (forgot_password env0 ''alice@example.com'' world_with_token)) =
       password_resets world_with_token"
proof -
  have d: "distinct (map r_token (password_resets world_registered))"
    by (simp add: world_registered_def)
  have coll: "token_stored (random_token env0) (password_resets world_with_token)"
    by (simp add: token_stored_def env0_def world_with_token_def alice_token_def)
  have reg: "select_user ''alice@example.com'' (users world_with_token) \<noteq> []"
    by (simp add: select_user_def world_with_token_def alice_def)
  have ok: "\<not> fails env0 UserSelect"
    by (simp add: env0_def no_faults_def)
  show ?thesis
    using tokens_stay_unique [OF d coll reg ok] .
qed

subsection \<open>The browser-side helpers\<close>

lemma auth_catch_returns: "\<exists>r. fst (auth_catch x) = Inr r"
  by (cases x) (auto simp: auth_catch_def split: sum.splits)

lemma auth_rejected:
  "fetch b rq = FetchRejected \<Longrightarrow> auth_catch (auth_try b rq st) = (Inr network_error, st)"
  by (simp add: auth_try_def auth_catch_def)

lemma auth_not_json:
  "fetch b rq = FetchResponse ok None \<Longrightarrow> auth_catch (auth_try b rq st) = (Inr network_error, st)"
  by (simp add: auth_try_def auth_catch_def)

lemma auth_null:
  "fetch b rq = FetchResponse ok (Some JNull) \<Longrightarrow>
   auth_catch (auth_try b rq st) = (Inr network_error, st)"
  by (simp add: auth_try_def auth_catch_def get_prop_def)

lemma auth_not_ok:
  "fetch b rq = FetchResponse False (Some d) \<Longrightarrow> d \<noteq> JNull \<Longrightarrow>
   auth_catch (auth_try b rq st) = (Inr (AuthFailure (members d ''error'')), st)"
  by (simp add: auth_try_def auth_catch_def get_prop_def)

lemma auth_ok:
  "fetch b rq = FetchResponse True (Some d) \<Longrightarrow> d \<noteq> JNull \<Longrightarrow>
   auth_catch (auth_try b rq st) =
     (if setItem_fails b ''access_token'' then (Inr network_error, st)
      else if setItem_fails b ''user'' then
        (Inr network_error, st(''access_token'' \<mapsto> js_String b (members d ''access_token'')))
      else (Inr (AuthSuccess d),
            st(''access_token'' \<mapsto> js_String b (members d ''access_token''),
               ''user'' \<mapsto> stringify_for_storage b (members d ''user''))))"
  by (simp add: auth_try_def auth_catch_def get_prop_def setItem_def)

text \<open>
  C9 (signup and login never throw; an OK response is stored and returned as a success).
  An OK response whose body is the JSON value \<^verbatim>\<open>null\<close> makes \<^verbatim>\<open>data.access_token\<close>
  throw, and an OK response met by a \<^verbatim>\<open>localStorage\<close> that refuses the write makes
  \<^verbatim>\<open>setItem\<close> throw: both end in the \<^verbatim>\<open>catch\<close>, so the call returns the network
  error and stores nothing.
\<close>

theorem login_ok_response_not_success:
  "fetch browser_ok_null (login_request browser_ok_null ''alice@example.com'' ''Abcdefg1'') =
     FetchResponse True (Some JNull)
   \<and> AuthAPI_login browser_ok_null ''alice@example.com'' ''Abcdefg1'' Map.empty =
       (Inr network_error, Map.empty)
   \<and> fetch browser_storage_full
       (login_request browser_storage_full ''alice@example.com'' ''Abcdefg1'') =
     FetchResponse True (Some login_body)
   \<and> AuthAPI_login browser_storage_full ''alice@example.com'' ''Abcdefg1'' Map.empty =
       (Inr network_error, Map.empty)"
  by (simp add: AuthAPI_login_def auth_try_def auth_catch_def get_prop_def setItem_def
      browser_ok_null_def browser_storage_full_def browser_ok_def browser_down_def
      storage_full_def login_body_def)

text \<open>
  C9, amended. \<^verbatim>\<open>AuthAPI.signup\<close> and \<^verbatim>\<open>AuthAPI.login\<close> never throw. They return
  \<^verbatim>\<open>{ success: false, error: <network-error message> }\<close> when the fetch rejects, when the
  body is not JSON, when the body is \<^verbatim>\<open>null\<close>, and when a write to \<^verbatim>\<open>localStorage\<close>
  throws. Otherwise a response that is not OK yields
  \<^verbatim>\<open>{ success: false, error: data.error }\<close> with the storage untouched, and an OK
  response stores \<^verbatim>\<open>data.access_token\<close> under \<^verbatim>\<open>access_token\<close> and
  \<^verbatim>\<open>JSON.stringify(data.user)\<close> under \<^verbatim>\<open>user\<close> and returns
  \<^verbatim>\<open>{ success: true, data }\<close>.
\<close>

theorem auth_never_throws:
  assumes "call = AuthAPI_signup b name email password st \<and>
             rq = signup_request b name email password
         \<or> call = AuthAPI_login b email password st \<and> rq = login_request b email password"
  shows "(\<exists>r. fst call = Inr r)
       \<and> (fetch b rq = FetchRejected \<longrightarrow> call = (Inr network_error, st))
       \<and> (\<forall>ok. fetch b rq = FetchResponse ok None \<or> fetch b rq = FetchResponse ok (Some JNull) \<longrightarrow>
                call = (Inr network_error, st))
       \<and> (\<forall>d. fetch b rq = FetchResponse False (Some d) \<and> d \<noteq> JNull \<longrightarrow>
               call = (Inr (AuthFailure (members d ''error'')), st))
       \<and> (\<forall>d. fetch b rq = FetchResponse True (Some d) \<and> d \<noteq> JNull \<longrightarrow>
               call =
                 (if setItem_fails b ''access_token'' then (Inr network_error, st)
                  else if setItem_fails b ''user'' then
                    (Inr network_error,
                     st(''access_token'' \<mapsto> js_String b (members d ''access_token'')))
                  else (Inr (AuthSuccess d),
                        st(''access_token'' \<mapsto> js_String b (members d ''access_token''),
                           ''user'' \<mapsto> stringify_for_storage b (members d ''user'')))))"
proof -
  have call: "call = auth_catch (auth_try b rq st)"
    using assms by (auto simp: AuthAPI_signup_def AuthAPI_login_def)
  show ?thesis
    unfolding call
    using auth_catch_returns [of "auth_try b rq st"] auth_rejected [of b rq st]
      auth_not_json [of b rq _ st] auth_null [of b rq _ st] auth_not_ok [of b rq _ st]
      auth_ok [of b rq _ st]
    by blast
qed

theorem auth_never_throws_witness:
  "AuthAPI_signup browser_down ''Alice'' ''alice@example.com'' ''Abcdefg1'' Map.empty =
     (Inr network_error, Map.empty)
   \<and> AuthAPI_login browser_denied ''alice@example.com'' ''Abcdefg1'' Map.empty =
     (Inr (AuthFailure (Some (JStr ''Invalid credentials''))), Map.empty)
   \<and> AuthAPI_login browser_ok ''alice@example.com'' ''Abcdefg1'' Map.empty =
     (Inr (AuthSuccess login_body), [''access_token'' \<mapsto> ''jwt'', ''user'' \<mapsto> ''{}''])"
proof -
  let ?s = "AuthAPI_signup browser_down ''Alice'' ''alice@example.com'' ''Abcdefg1'' Map.empty"
  let ?d = "AuthAPI_login browser_denied ''alice@example.com'' ''Abcdefg1'' Map.empty"
  let ?k = "AuthAPI_login browser_ok ''alice@example.com'' ''Abcdefg1'' Map.empty"
  have "?s = (Inr network_error, Map.empty)"
    using auth_never_throws [of ?s browser_down "''Alice''" "''alice@example.com''"
        "''Abcdefg1''" Map.empty "signup_request browser_down ''Alice'' ''alice@example.com'' ''Abcdefg1''"]
    by (simp add: browser_down_def)
  moreover have "?d = (Inr (AuthFailure (Some (JStr ''Invalid credentials''))), Map.empty)"
    using auth_never_throws [of ?d browser_denied _ "''alice@example.com''" "''Abcdefg1''"
        Map.empty "login_request browser_denied ''alice@example.com'' ''Abcdefg1''"]
    by (simp add: browser_denied_def browser_down_def denied_body_def)
  moreover have "?k = (Inr (AuthSuccess login_body),
                       [''access_token'' \<mapsto> ''jwt'', ''user'' \<mapsto> ''{}''])"
    using auth_never_throws [of ?k browser_ok _ "''alice@example.com''" "''Abcdefg1''"
        Map.empty "login_request browser_ok ''alice@example.com'' ''Abcdefg1''"]
    by (simp add: browser_ok_def browser_down_def login_body_def storage_works_def
        to_text_def stringify_for_storage_def)
  ultimately show ?thesis by simp
qed

lemma resource_catch_returns: "\<exists>v. resource_catch r fallback = Inr v"
  by (cases r) (simp_all add: resource_catch_def)

lemma resource_failure:
  assumes "\<And>rq. fetch b rq = FetchRejected \<or> (\<exists>parsed. fetch b rq = FetchResponse False parsed)"
  shows "resource_catch (resource_try b endpoint method payload message st) fallback =
           Inr fallback"
proof (cases "AuthAPI_getAuthHeaders b st")
  case (Inl x)
  then show ?thesis by (simp add: resource_try_def resource_catch_def)
next
  case (Inr hs)
  let ?rq = "\<lparr>rq_url = getApiUrl endpoint, rq_method = method, rq_headers = hs,
              rq_body = map_option (JSON_stringify b) payload\<rparr>"
  from assms [of ?rq] show ?thesis
    by (auto simp: resource_try_def resource_catch_def Inr)
qed

text \<open>
  C10 (on a response that is not OK and on a network error the list helpers return the
  empty list, the create helpers return \<^verbatim>\<open>null\<close>, and none of them throws). When every
  fetch of the browser \<open>b\<close> rejects or brings a response that is not OK, the four list
  helpers return \<^verbatim>\<open>[]\<close> and the four create helpers \<^verbatim>\<open>null\<close>; and in any browser
  \<open>c\<close>, whatever the fetch brings, each helper returns a value and throws nothing.
\<close>

theorem resource_helpers_absorb_failures:
  assumes "\<And>rq. fetch b rq = FetchRejected \<or> (\<exists>parsed. fetch b rq = FetchResponse False parsed)"
  shows "CalendarAPI_getEvents b st = Inr (JArr [])
       \<and> MoodAPI_getMoodEntries b st = Inr (JArr [])
       \<and> GoalsAPI_getGoals b st = Inr (JArr [])
       \<and> StudyAPI_getStudySessions b st = Inr (JArr [])
       \<and> CalendarAPI_createEvent b eventData st = Inr JNull
       \<and> MoodAPI_createMoodEntry b mood moodLevel notes st = Inr JNull
       \<and> GoalsAPI_createGoal b goalData st = Inr JNull
       \<and> StudyAPI_createStudySession b duration subject notes sessionType st = Inr JNull
       \<and> (\<exists>v. CalendarAPI_getEvents c st = Inr v)
       \<and> (\<exists>v. MoodAPI_getMoodEntries c st = Inr v)
       \<and> (\<exists>v. GoalsAPI_getGoals c st = Inr v)
       \<and> (\<exists>v. StudyAPI_getStudySessions c st = Inr v)
       \<and> (\<exists>v. CalendarAPI_createEvent c eventData st = Inr v)
       \<and> (\<exists>v. MoodAPI_createMoodEntry c mood moodLevel notes st = Inr v)
       \<and> (\<exists>v. GoalsAPI_createGoal c goalData st = Inr v)
       \<and> (\<exists>v. StudyAPI_createStudySession c duration subject notes sessionType st = Inr v)"
  unfolding CalendarAPI_getEvents_def MoodAPI_getMoodEntries_def GoalsAPI_getGoals_def
    StudyAPI_getStudySessions_def CalendarAPI_createEvent_def MoodAPI_createMoodEntry_def
    GoalsAPI_createGoal_def StudyAPI_createStudySession_def
  by (simp only: resource_failure [OF assms] resource_catch_returns simp_thms)

theorem resource_helpers_absorb_failures_witness:
  "CalendarAPI_getEvents browser_down Map.empty = Inr (JArr [])
   \<and> MoodAPI_getMoodEntries browser_denied Map.empty = Inr (JArr [])
   \<and> GoalsAPI_createGoal browser_down (JObj [(''title'', JStr ''Read'')]) Map.empty = Inr JNull
   \<and> StudyAPI_createStudySession browser_denied (JNum 25) (JStr ''Maths'') None None Map.empty =
       Inr JNull"
proof -
  have down: "fetch browser_down rq = FetchRejected \<or>
              (\<exists>parsed. fetch browser_down rq = FetchResponse False parsed)" for rq
    by (simp add: browser_down_def)
  have denied: "fetch browser_denied rq = FetchRejected \<or>
                (\<exists>parsed. fetch browser_denied rq = FetchResponse False parsed)" for rq
    by (simp add: browser_denied_def browser_down_def)
  show ?thesis
    using resource_helpers_absorb_failures [OF down, of Map.empty _ _ _ _
        "JObj [(''title'', JStr ''Read'')]"]
      resource_helpers_absorb_failures [OF denied, of Map.empty _ _ _ _ _ "JNum 25"
        "JStr ''Maths''" None]
    by simp
qed

end
